theory Spec2Isabelle
  imports Main "HOL-Library.Sublist" "HOL-Library.AList"
begin

section \<open>Values, errors and the world the tool acts on\<close>

text \<open>
  The value \<open>parse\<close> of the yaml package returns is cast to \<open>TlsConfig\<close> without any runtime
  check, so the model keeps the untyped JavaScript value: every property access of the source
  is a lookup that can yield \<open>undefined\<close> or throw a \<open>TypeError\<close>.
\<close>

datatype jsval =
    JUndefined
  | JNull
  | JBool bool
  | JNum int
  | JStr string
  | JArr "jsval list"
  | JObj "(string \<times> jsval) list"

datatype js_error = TypeError | ReadError | WriteError | YAMLParseError

text \<open>
  How a call stops the program: \<open>process.exit(n)\<close>, an exception nobody catches, or the
  operator aborting the prompt. \<open>Inr\<close> is a normal return.
\<close>

datatype halt = Exit nat | Uncaught js_error | Aborted

type_synonym 'a result = "halt + 'a"

text \<open>
  Node ends a process whose exception is not caught with status 1, and an aborted prompt is
  such an exception, thrown by the prompt; a run that returns from \<open>start\<close> ends with status 0.
\<close>

fun exit_code :: "'a result \<Rightarrow> nat option" where
  "exit_code (Inr _) = Some 0"
| "exit_code (Inl (Exit n)) = Some n"
| "exit_code (Inl (Uncaught _)) = Some 1"
| "exit_code (Inl Aborted) = Some 1"

datatype level = Info | Error | Success

text \<open>
  What the tool does to its surroundings, in order: a logger call, a \<open>shell.exec\<close> in the
  store directory, a call of \<open>fs.writeFileSync\<close> for a file of the store directory (with the
  name as the tool joins it to the directory), \<open>fs.readFileSync\<close> and \<open>fs.writeFileSync\<close> of
  the proxy config. The effects are the events that start a process or write a file.
\<close>

datatype event =
    Log level string
  | Exec string
  | WriteStore string string
  | ReadConfig
  | WriteConfig string

fun is_effect :: "event \<Rightarrow> bool" where
  "is_effect (Log _ _) = False"
| "is_effect (Exec _) = True"
| "is_effect (WriteStore _ _) = True"
| "is_effect ReadConfig = False"
| "is_effect (WriteConfig _) = True"

definition effects :: "event list \<Rightarrow> event list" where
  "effects es = filter is_effect es"

text \<open>
  \<open>os\<close> is \<open>platform()\<close>; \<open>store\<close> is what \<open>shell.ls(certsDir)\<close> lists (no names when the
  directory is missing, and never a name that starts with a dot); \<open>dirs\<close> are the directories
  other than the store directory itself in which a file can be created, each by its normalised
  path relative to the store directory (\<open>a\<close>, \<open>a/b\<close>, \<open>..\<close>); \<open>config\<close> is the text of
  \<open>certsConfigPath\<close>, \<open>None\<close> when \<open>fs.readFileSync\<close> throws. What the openssl processes do
  to the store is outside the program: their invocations are recorded, in order.
\<close>

record world =
  os :: string
  store :: "string list"
  dirs :: "string list"
  config :: "string option"
  events :: "event list"

definition logger :: "level \<Rightarrow> string \<Rightarrow> world \<Rightarrow> world" where
  "logger l msg w = w\<lparr>events := events w @ [Log l msg]\<rparr>"

definition shell_exec :: "string \<Rightarrow> world \<Rightarrow> world" where
  "shell_exec cmd w = w\<lparr>events := events w @ [Exec cmd]\<rparr>"

text \<open>
  \<open>join(certsDir, name)\<close> with POSIX paths: the name is cut at its slashes, empty and \<open>.\<close>
  segments are dropped and \<open>..\<close> removes the segment before it, or stays when there is none.
\<close>

fun split_path :: "string \<Rightarrow> string list" where
  "split_path [] = [[]]"
| "split_path (c # cs) =
     (if c = CHR ''/'' then [] # split_path cs
      else (case split_path cs of [] \<Rightarrow> [[c]] | s # ss \<Rightarrow> (c # s) # ss))"

fun normalize :: "string list \<Rightarrow> string list \<Rightarrow> string list" where
  "normalize acc [] = rev acc"
| "normalize acc (s # ss) =
     (if s = [] \<or> s = ''.'' then normalize acc ss
      else if s = ''..'' then
        (case acc of
           [] \<Rightarrow> normalize [s] ss
         | a # acc' \<Rightarrow> if a = ''..'' then normalize (s # acc) ss else normalize acc' ss)
      else normalize (s # acc) ss)"

fun join_path :: "string list \<Rightarrow> string" where
  "join_path [] = []"
| "join_path [s] = s"
| "join_path (s # t # ss) = s @ ''/'' @ join_path (t # ss)"

definition store_target :: "string \<Rightarrow> string list" where
  "store_target name = normalize [] (split_path name)"

text \<open>
  \<open>fs.writeFileSync(join(certsDir, name), content)\<close>. A target directly in the store directory
  is written, and listed from then on unless its name starts with a dot. A target elsewhere is
  written when its directory exists, and the listing stays as it is. In every other case the
  call throws.
\<close>

definition writeStoreFile :: "string \<Rightarrow> string \<Rightarrow> world \<Rightarrow> unit result \<times> world" where
  "writeStoreFile name content w =
     (let w1 = w\<lparr>events := events w @ [WriteStore name content]\<rparr> in
      case store_target name of
        [] \<Rightarrow> (Inl (Uncaught WriteError), w1)
      | [f] \<Rightarrow>
          if f = ''..'' then (Inl (Uncaught WriteError), w1)
          else if prefix ''.'' f then (Inr (), w1)
          else (Inr (), w1\<lparr>store := List.insert f (store w1)\<rparr>)
      | f # g # segs \<Rightarrow>
          if join_path (butlast (f # g # segs)) \<in> set (dirs w) then (Inr (), w1)
          else (Inl (Uncaught WriteError), w1))"

definition readConfigFile :: "world \<Rightarrow> string option \<times> world" where
  "readConfigFile w = (config w, w\<lparr>events := events w @ [ReadConfig]\<rparr>)"

definition writeConfigFile :: "string \<Rightarrow> world \<Rightarrow> world" where
  "writeConfigFile content w =
     w\<lparr>config := Some content, events := events w @ [WriteConfig content]\<rparr>"

text \<open>
  The yaml package is not part of the repository: \<open>parse\<close> (\<open>None\<close> when it throws) and
  \<open>stringify\<close> are parameters of the model.
\<close>

record yaml =
  parse :: "string \<Rightarrow> jsval option"
  stringify :: "jsval \<Rightarrow> string"

text \<open>
  A finite table of YAML texts with the documents they denote, standing for the package on
  concrete runs.
\<close>

definition yaml_of_table :: "(string \<times> jsval) list \<Rightarrow> yaml" where
  "yaml_of_table t =
     \<lparr>parse = map_of t,
      stringify = (\<lambda>v. case find (\<lambda>p. snd p = v) t of Some p \<Rightarrow> fst p | None \<Rightarrow> [])\<rparr>"

record RootCertificateDefinition =
  certificate :: string
  key :: string

definition ROOT_CA :: RootCertificateDefinition where
  "ROOT_CA = \<lparr>certificate = ''root.pem'', key = ''root.key''\<rparr>"

section \<open>The interactive driver's validation\<close>

datatype validation = Valid | Invalid string

definition validate :: "string \<Rightarrow> validation" where
  "validate answer =
     (if answer = [] then Invalid ''You need to choose a domain.''
      else if \<not> suffix ''.test'' answer
        then Invalid ''Your domain has to end with the `.test` extension.''
      else Valid)"

text \<open>
  \<open>prompt.ask\<close> asks again until an answer validates; the operator's answers are a list, and
  running out of answers is the operator aborting the prompt.
\<close>

fun ask :: "string list \<Rightarrow> string option" where
  "ask [] = None"
| "ask (answer # rest) =
     (case validate answer of Valid \<Rightarrow> Some answer | Invalid _ \<Rightarrow> ask rest)"

section \<open>Certificate subject and extension file\<close>

definition getCertificateSubject :: "string option \<Rightarrow> string" where
  "getCertificateSubject domain =
     ''/C=FR/ST=azerty/L=azerty/O=azerty/OU=azerty/CN=''
       @ (case domain of Some d \<Rightarrow> d | None \<Rightarrow> ''Root CA'')"

definition createExtensionString :: "string \<Rightarrow> string" where
  "createExtensionString domain =
     ''authorityKeyIdentifier=keyid,issuer\<newline>''
     @ ''basicConstraints=CA:FALSE\<newline>''
     @ ''keyUsage = digitalSignature, nonRepudiation, keyEncipherment, dataEncipherment\<newline>''
     @ ''subjectAltName = @alt_names\<newline>\<newline>''
     @ ''[alt_names]\<newline>''
     @ ''DNS.1 = '' @ domain @ ''\<newline>''
     @ ''DNS.2 = *.'' @ domain @ ''\<newline>''"

section \<open>Certificate-authority manager\<close>

record variant =
  keyCmd :: string
  certCmd :: string
  doc :: string

definition platformVariants :: "string \<Rightarrow> variant option" where
  \<open>platformVariants p =
     (if p = ''win32'' then Some
        \<lparr>keyCmd = ''winpty openssl genrsa -des3 -out root.key 2048'',
         certCmd = ''winpty openssl req -x509 -new -nodes -key root.key -sha256 -days 1825 -out root.pem -subj "''
           @ getCertificateSubject None @ ''"'',
         doc = ''https://deliciousbrains.com/ssl-certificate-authority-for-local-https-development/#adding-root-cert-macos-keychain''\<rparr>
      else if p = ''darwin'' then Some
        \<lparr>keyCmd = ''openssl genrsa -des3 -out root.key 2048'',
         certCmd = ''openssl req -x509 -new -nodes -key root.key -sha256 -days 1825 -out root.pem -subj "''
           @ getCertificateSubject None @ ''"'',
         doc = ''https://deliciousbrains.com/ssl-certificate-authority-for-local-https-development/#adding-root-cert-macos-keychain''\<rparr>
      else if p = ''linux'' then Some
        \<lparr>keyCmd = ''openssl genrsa -des3 -out root.key 2048'',
         certCmd = ''openssl req -x509 -new -nodes -key root.key -sha256 -days 1825 -out root.pem -subj "''
           @ getCertificateSubject None @ ''"'',
         doc = ''https://deliciousbrains.com/ssl-certificate-authority-for-local-https-development/#adding-root-cert-linux-keychain''\<rparr>
      else None)\<close>

text \<open>The filter both root checks apply to the listing of the store directory.\<close>

definition alreadyExists :: "world \<Rightarrow> string list" where
  "alreadyExists w =
     filter (\<lambda>file. file = certificate ROOT_CA \<or> file = key ROOT_CA) (store w)"

text \<open>
  \<open>platformVariants[os]!.keyCmd\<close> is evaluated after the first log line; on a platform
  without a variant it throws a \<open>TypeError\<close>.
\<close>

definition createCertificateAuthority :: "world \<Rightarrow> unit result \<times> world" where
  "createCertificateAuthority w =
     (if length (alreadyExists w) = 2
      then (Inl (Exit 0), logger Info ''Root certificate authority already exist.'' w)
      else
        let w1 = logger Info ''Creating key...'' w in
        case platformVariants (os w) of
          None \<Rightarrow> (Inl (Uncaught TypeError), w1)
        | Some v \<Rightarrow>
            let w2 = shell_exec (keyCmd v) w1;
                w3 = logger Info ''Creating certificate...'' w2;
                w4 = shell_exec (certCmd v) w3;
                w5 = logger Success
                       ''Certificate authority created with name `root.pem` and key `root.key`'' w4;
                w6 = logger Info
                       (''You need to trust the certificate authority on your machine. View ''
                          @ doc v @ '' for more info.'') w5
            in (Inr (), w6))"

section \<open>Leaf-certificate issuer\<close>

definition verifyRootCertificates :: "world \<Rightarrow> RootCertificateDefinition result \<times> world" where
  "verifyRootCertificates w =
     (if length (alreadyExists w) \<noteq> 2
      then (Inl (Exit 1),
            logger Error ''Root certificate authority do not exist. You can generate it with selecting the second option of this CLI.'' w)
      else
        (Inr (fold (\<lambda>file d. if file = certificate ROOT_CA
                               then d\<lparr>certificate := file\<rparr> else d\<lparr>key := file\<rparr>)
                (alreadyExists w) \<lparr>certificate = [], key = []\<rparr>), w))"

definition generateCertificate :: "string \<Rightarrow> world \<Rightarrow> unit result \<times> world" where
  \<open>generateCertificate domainName w =
     (let w1 = shell_exec (''openssl genrsa -out '' @ domainName @ ''.key 2048'') w;
          w2 = shell_exec (''openssl req -new -key '' @ domainName @ ''.key -out '' @ domainName
                  @ ''.csr -subj "'' @ getCertificateSubject (Some domainName) @ ''"'') w1
      in case writeStoreFile (domainName @ ''.ext'') (createExtensionString domainName) w2 of
           (Inl h, w3) \<Rightarrow> (Inl h, w3)
         | (Inr _, w3) \<Rightarrow>
             (Inr (), shell_exec (''openssl x509 -req -in '' @ domainName
                @ ''.csr -CA root.pem -CAkey root.key -CAcreateserial -out '' @ domainName
                @ ''.crt -days 825 -sha256 -extfile '' @ domainName @ ''.ext'') w3))\<close>

section \<open>Registration manager\<close>

text \<open>
  Reading a property: \<open>null\<close> and \<open>undefined\<close> throw; an object gives the value stored under
  the name or \<open>undefined\<close>; a string, number, boolean or array gives \<open>undefined\<close> for the names
  the source reads (\<open>tls\<close>, \<open>certificates\<close>, \<open>certFile\<close>), which no prototype defines.
\<close>

fun get_prop :: "jsval \<Rightarrow> string \<Rightarrow> js_error + jsval" where
  "get_prop JUndefined k = Inl TypeError"
| "get_prop JNull k = Inl TypeError"
| "get_prop (JObj kvs) k = (case map_of kvs k of Some x \<Rightarrow> Inr x | None \<Rightarrow> Inr JUndefined)"
| "get_prop v k = Inr JUndefined"

text \<open>The character class \<open>[a-zA-Z-_.]\<close> of the pattern: letters, hyphen, underscore, dot.\<close>

definition domain_char :: "char \<Rightarrow> bool" where
  "domain_char c \<longleftrightarrow>
     (97 \<le> (of_char c :: nat) \<and> (of_char c :: nat) \<le> 122)
     \<or> (65 \<le> (of_char c :: nat) \<and> (of_char c :: nat) \<le> 90)
     \<or> c = CHR ''-'' \<or> c = CHR ''_'' \<or> c = CHR ''.''"

text \<open>
  \<open>certFile.match(/^\/etc\/ssl\/traefik\/(?<domain>[a-zA-Z-_.]+)\.crt$/)\<close>: the pattern is
  anchored at both ends, so the group is what lies between the fixed prefix and \<open>.crt\<close>, and
  the match exists when that part is not empty and stays in the character class.
\<close>

definition match_certFile :: "string \<Rightarrow> string option" where
  "match_certFile s =
     (let p = ''/etc/ssl/traefik/''; x = ''.crt'' in
      if prefix p s \<and> suffix x (drop (length p) s) then
        let d = take (length s - length p - length x) (drop (length p) s) in
        if d \<noteq> [] \<and> list_all domain_char d then Some d else None
      else None)"

text \<open>
  The callback of \<open>find\<close>: \<open>certFile.match\<close> exists on strings only, so any other value of
  \<open>certFile\<close> throws.
\<close>

definition entry_matches :: "string \<Rightarrow> jsval \<Rightarrow> js_error + bool" where
  "entry_matches domainName cert =
     (case get_prop cert ''certFile'' of
        Inl e \<Rightarrow> Inl e
      | Inr certFile \<Rightarrow>
          (case certFile of
             JStr s \<Rightarrow>
               (case match_certFile s of
                  Some d \<Rightarrow> if d \<noteq> [] then Inr (d = domainName) else Inr False
                | None \<Rightarrow> Inr False)
           | _ \<Rightarrow> Inl TypeError))"

fun find_entry :: "string \<Rightarrow> jsval list \<Rightarrow> js_error + jsval option" where
  "find_entry domainName [] = Inr None"
| "find_entry domainName (cert # rest) =
     (case entry_matches domainName cert of
        Inl e \<Rightarrow> Inl e
      | Inr True \<Rightarrow> Inr (Some cert)
      | Inr False \<Rightarrow> find_entry domainName rest)"

text \<open>\<open>existingCerts.find(...)\<close>: only an array has \<open>find\<close>.\<close>

fun js_find :: "string \<Rightarrow> jsval \<Rightarrow> js_error + jsval option" where
  "js_find domainName (JArr certs) = find_entry domainName certs"
| "js_find domainName v = Inl TypeError"

definition new_entry :: "string \<Rightarrow> jsval" where
  "new_entry domainName =
     JObj [(''certFile'', JStr (''/etc/ssl/traefik/'' @ domainName @ ''.crt'')),
           (''keyFile'', JStr (''/etc/ssl/traefik/'' @ domainName @ ''.key''))]"

text \<open>
  \<open>parsedFile.tls.certificates.push(entry)\<close> changes the array in place: the document keeps
  its keys, in their order, and the array gains the entry at its end. Documents are trees
  here: an array that YAML anchors make reachable from two places is not represented.
\<close>

definition push_certificate :: "jsval \<Rightarrow> jsval \<Rightarrow> js_error + jsval" where
  "push_certificate parsedFile entry =
     (case parsedFile of
        JObj root \<Rightarrow>
          (case map_of root ''tls'' of
             Some (JObj t) \<Rightarrow>
               (case map_of t ''certificates'' of
                  Some (JArr certs) \<Rightarrow>
                    Inr (JObj (AList.update ''tls''
                           (JObj (AList.update ''certificates'' (JArr (certs @ [entry])) t)) root))
                | _ \<Rightarrow> Inl TypeError)
           | _ \<Rightarrow> Inl TypeError)
      | _ \<Rightarrow> Inl TypeError)"

definition throw :: "js_error \<Rightarrow> world \<Rightarrow> unit result \<times> world" where
  "throw e w = (Inl (Uncaught e), w)"

definition addNewCertificate :: "yaml \<Rightarrow> string \<Rightarrow> world \<Rightarrow> unit result \<times> world" where
  "addNewCertificate y domainName w =
     (case verifyRootCertificates w of
        (Inl h, w1) \<Rightarrow> (Inl h, w1)
      | (Inr _, w0) \<Rightarrow>
     (case readConfigFile w0 of
        (None, w1) \<Rightarrow> throw ReadError w1
      | (Some file, w1) \<Rightarrow>
     (case parse y file of
        None \<Rightarrow> throw YAMLParseError w1
      | Some parsedFile \<Rightarrow>
     (case get_prop parsedFile ''tls'' of
        Inl e \<Rightarrow> throw e w1
      | Inr tls \<Rightarrow>
     (case get_prop tls ''certificates'' of
        Inl e \<Rightarrow> throw e w1
      | Inr existingCerts \<Rightarrow>
     (case js_find domainName existingCerts of
        Inl e \<Rightarrow> throw e w1
      | Inr (Some entryExists) \<Rightarrow>
          (Inl (Exit 1),
           logger Error ''This domain is already registered locally. Please choose another one.'' w1)
      | Inr None \<Rightarrow>
          (case generateCertificate domainName w1 of
             (Inl h, w2) \<Rightarrow> (Inl h, w2)
           | (Inr _, w2) \<Rightarrow>
          (case push_certificate parsedFile (new_entry domainName) of
             Inl e \<Rightarrow> throw e w2
           | Inr parsedFile' \<Rightarrow>
               (Inr (), writeConfigFile (stringify y parsedFile') w2)))))))))"

section \<open>Interactive driver\<close>

datatype action = Root_ca | Site_cert

definition start :: "yaml \<Rightarrow> action \<Rightarrow> string list \<Rightarrow> world \<Rightarrow> unit result \<times> world" where
  "start y act answers w =
     (if os w \<notin> set [''darwin'', ''linux'', ''win32'']
      then (Inl (Exit 1), logger Error ''Your operating system is not supported by this tool.'' w)
      else
        let w1 = (if os w = ''win32''
                  then logger Info ''If you are running on Windows, you need to execute this tool inside WSL in order to work with openssl.'' w
                  else w)
        in case act of
             Root_ca \<Rightarrow> createCertificateAuthority w1
           | Site_cert \<Rightarrow>
               (case ask answers of
                  None \<Rightarrow> (Inl Aborted, w1)
                | Some domain \<Rightarrow> addNewCertificate y domain w1))"

section \<open>Notions the properties are stated with\<close>

text \<open>
  The certificates sequence of a document of the shape \<open>{tls: {certificates: [...]}}\<close>:
  an object whose \<open>tls\<close> is an object whose \<open>certificates\<close> is an array. Any other value has
  none.
\<close>

definition certificates_of :: "jsval \<Rightarrow> jsval list option" where
  "certificates_of v =
     (case v of
        JObj root \<Rightarrow>
          (case map_of root ''tls'' of
             Some (JObj t) \<Rightarrow>
               (case map_of t ''certificates'' of Some (JArr certs) \<Rightarrow> Some certs | _ \<Rightarrow> None)
           | _ \<Rightarrow> None)
      | _ \<Rightarrow> None)"

text \<open>
  The certificates sequence the config file holds: none when the file cannot be read, does
  not parse, or parses to another shape.
\<close>

definition parsed_certificates :: "yaml \<Rightarrow> world \<Rightarrow> jsval list option" where
  "parsed_certificates y w =
     (case config w of
        None \<Rightarrow> None
      | Some file \<Rightarrow> (case parse y file of None \<Rightarrow> None | Some v \<Rightarrow> certificates_of v))"

text \<open>The domain an entry is registered for: what the pattern extracts from its \<open>certFile\<close>.\<close>

definition extracted_domain :: "jsval \<Rightarrow> string option" where
  "extracted_domain cert =
     (case cert of
        JObj kvs \<Rightarrow> (case map_of kvs ''certFile'' of Some (JStr s) \<Rightarrow> match_certFile s | _ \<Rightarrow> None)
      | _ \<Rightarrow> None)"

text \<open>An entry as \<open>TlsConfig\<close> types it, as far as the conflict check reads it.\<close>

definition has_certFile :: "jsval \<Rightarrow> bool" where
  "has_certFile cert =
     (case cert of
        JObj kvs \<Rightarrow> (case map_of kvs ''certFile'' of Some (JStr s) \<Rightarrow> True | _ \<Rightarrow> False)
      | _ \<Rightarrow> False)"

definition roots_present :: "world \<Rightarrow> bool" where
  "roots_present w \<longleftrightarrow> ''root.pem'' \<in> set (store w) \<and> ''root.key'' \<in> set (store w)"

text \<open>The events a run has added to those of the world it started in.\<close>

definition added :: "world \<Rightarrow> world \<Rightarrow> event list" where
  "added w w' = drop (length (events w)) (events w')"

text \<open>
  A run leaves its surroundings untouched when it starts no process and writes no file, so
  that the store and the config are what they were.
\<close>

definition untouched :: "world \<Rightarrow> world \<Rightarrow> bool" where
  "untouched w w' \<longleftrightarrow>
     prefix (events w) (events w') \<and> effects (added w w') = []
     \<and> store w' = store w \<and> config w' = config w"

text \<open>The lines of a text, and the part of a text after the first occurrence of a header.\<close>

fun split_lines :: "string \<Rightarrow> string list" where
  "split_lines [] = []"
| "split_lines (c # cs) =
     (if c = CHR ''\<newline>'' then [] # split_lines cs
      else (case split_lines cs of [] \<Rightarrow> [[c]] | l # ls \<Rightarrow> (c # l) # ls))"

fun after_first :: "string \<Rightarrow> string \<Rightarrow> string option" where
  "after_first h [] = (if h = [] then Some [] else None)"
| "after_first h (c # cs) =
     (if prefix h (c # cs) then Some (drop (length h) (c # cs)) else after_first h cs)"

subsection \<open>The yaml package on TLS documents\<close>

text \<open>
  Modelled from the spec: \<open>parse\<close> and \<open>stringify\<close> of the yaml package, which is not under
  \<open>src/\<close>. The spec has the config as a document \<open>{tls: {certificates: [{certFile, keyFile},
  ...]}}\<close> kept in a flat YAML file that is read in full, rewritten in full, and re-parses to
  the entries that were written. The model fixes the package on these documents alone, for
  paths that YAML writes as plain scalars (a slash, then letters, digits, slashes, dots,
  underscores and hyphens): \<open>stringify\<close> gives the block style of the package's default
  options, and \<open>parse\<close> reads that style. On every other value and text the package is the
  parameter \<open>other\<close>.
\<close>

definition plain_char :: "char \<Rightarrow> bool" where
  "plain_char c \<longleftrightarrow>
     (97 \<le> (of_char c :: nat) \<and> (of_char c :: nat) \<le> 122)
     \<or> (65 \<le> (of_char c :: nat) \<and> (of_char c :: nat) \<le> 90)
     \<or> (48 \<le> (of_char c :: nat) \<and> (of_char c :: nat) \<le> 57)
     \<or> c = CHR ''/'' \<or> c = CHR ''.'' \<or> c = CHR ''_'' \<or> c = CHR ''-''"

definition plain_path :: "string \<Rightarrow> bool" where
  "plain_path s \<longleftrightarrow> prefix ''/'' s \<and> list_all plain_char s"

definition plain_entry :: "string \<times> string \<Rightarrow> bool" where
  "plain_entry e \<longleftrightarrow> plain_path (fst e) \<and> plain_path (snd e)"

definition entry_of :: "string \<times> string \<Rightarrow> jsval" where
  "entry_of e = JObj [(''certFile'', JStr (fst e)), (''keyFile'', JStr (snd e))]"

definition tls_doc :: "(string \<times> string) list \<Rightarrow> jsval" where
  "tls_doc es = JObj [(''tls'', JObj [(''certificates'', JArr (map entry_of es))])]"

definition entry_paths :: "jsval \<Rightarrow> (string \<times> string) option" where
  "entry_paths e =
     (case e of
        JObj [(a, JStr c), (b, JStr k)] \<Rightarrow>
          if a = ''certFile'' \<and> b = ''keyFile'' \<and> plain_path c \<and> plain_path k
          then Some (c, k) else None
      | _ \<Rightarrow> None)"

definition tls_entries :: "jsval \<Rightarrow> (string \<times> string) list option" where
  "tls_entries v =
     (case v of
        JObj [(a, JObj [(b, JArr es)])] \<Rightarrow>
          if a = ''tls'' \<and> b = ''certificates'' then those (map entry_paths es) else None
      | _ \<Rightarrow> None)"

definition emit_entry :: "string \<times> string \<Rightarrow> string" where
  "emit_entry e =
     ''    - certFile: '' @ fst e @ ''\<newline>'' @ ''      keyFile: '' @ snd e @ ''\<newline>''"

definition emit_tls :: "(string \<times> string) list \<Rightarrow> string" where
  "emit_tls es =
     (if es = [] then ''tls:\<newline>  certificates: []\<newline>''
      else ''tls:\<newline>  certificates:\<newline>'' @ concat (map emit_entry es))"

definition after_prefix :: "string \<Rightarrow> string \<Rightarrow> string option" where
  "after_prefix p l = (if prefix p l then Some (drop (length p) l) else None)"

fun parse_entries :: "string list \<Rightarrow> (string \<times> string) list option" where
  "parse_entries [] = Some []"
| "parse_entries [l] = None"
| "parse_entries (l # m # ls) =
     (case after_prefix ''    - certFile: '' l of
        None \<Rightarrow> None
      | Some c \<Rightarrow>
          (case after_prefix ''      keyFile: '' m of
             None \<Rightarrow> None
           | Some k \<Rightarrow>
               if plain_path c \<and> plain_path k
               then (case parse_entries ls of None \<Rightarrow> None | Some es \<Rightarrow> Some ((c, k) # es))
               else None))"

definition parse_tls :: "string \<Rightarrow> jsval option" where
  "parse_tls s =
     (case split_lines s of
        l # m # ls \<Rightarrow>
          if l = ''tls:'' \<and> m = ''  certificates: []'' \<and> ls = [] then Some (tls_doc [])
          else if l = ''tls:'' \<and> m = ''  certificates:'' \<and> ls \<noteq> []
            then (case parse_entries ls of None \<Rightarrow> None | Some es \<Rightarrow> Some (tls_doc es))
          else None
      | _ \<Rightarrow> None)"

text \<open>
  Modelled from the spec: the yaml package, which is not under \<open>src/\<close>, as \<open>emit_tls\<close> and
  \<open>parse_tls\<close> on the TLS documents with plain paths and as the parameter everywhere else.
\<close>

definition yaml_package :: "yaml \<Rightarrow> yaml" where
  "yaml_package other =
     \<lparr>parse = (\<lambda>s. case parse_tls s of Some v \<Rightarrow> Some v | None \<Rightarrow> parse other s),
      stringify = (\<lambda>v. case tls_entries v of Some es \<Rightarrow> emit_tls es
                                           | None \<Rightarrow> stringify other v)\<rparr>"

subsection \<open>Sample surroundings for concrete runs\<close>

definition doc_empty :: jsval where
  "doc_empty = JObj [(''tls'', JObj [(''certificates'', JArr [])])]"

definition doc_foo :: jsval where
  "doc_foo = JObj [(''tls'', JObj [(''certificates'', JArr [new_entry ''foo.test''])])]"

definition doc_foo_app :: jsval where
  "doc_foo_app =
     JObj [(''tls'', JObj [(''certificates'', JArr [new_entry ''foo.test'', new_entry ''app.test''])])]"

definition doc_dot :: jsval where
  "doc_dot = JObj [(''tls'', JObj [(''certificates'', JArr [new_entry ''.test''])])]"

definition text_empty :: string where
  "text_empty = ''tls:\<newline>  certificates: []\<newline>''"

definition text_foo :: string where
  "text_foo = ''tls:\<newline>  certificates:\<newline>''
     @ ''    - certFile: /etc/ssl/traefik/foo.test.crt\<newline>''
     @ ''      keyFile: /etc/ssl/traefik/foo.test.key\<newline>''"

definition text_foo_app :: string where
  "text_foo_app = text_foo
     @ ''    - certFile: /etc/ssl/traefik/app.test.crt\<newline>''
     @ ''      keyFile: /etc/ssl/traefik/app.test.key\<newline>''"

definition text_dot :: string where
  "text_dot = ''tls:\<newline>  certificates:\<newline>''
     @ ''    - certFile: /etc/ssl/traefik/.test.crt\<newline>''
     @ ''      keyFile: /etc/ssl/traefik/.test.key\<newline>''"

definition doc_app1 :: jsval where
  "doc_app1 = JObj [(''tls'', JObj [(''certificates'', JArr [new_entry ''app1.test''])])]"

definition doc_app1_twice :: jsval where
  "doc_app1_twice =
     JObj [(''tls'', JObj [(''certificates'', JArr [new_entry ''app1.test'', new_entry ''app1.test''])])]"

definition text_app1 :: string where
  "text_app1 = ''tls:\<newline>  certificates:\<newline>''
     @ ''    - certFile: /etc/ssl/traefik/app1.test.crt\<newline>''
     @ ''      keyFile: /etc/ssl/traefik/app1.test.key\<newline>''"

definition text_app1_twice :: string where
  "text_app1_twice = text_app1
     @ ''    - certFile: /etc/ssl/traefik/app1.test.crt\<newline>''
     @ ''      keyFile: /etc/ssl/traefik/app1.test.key\<newline>''"

definition sample_yaml :: yaml where
  "sample_yaml =
     yaml_of_table
       [(text_empty, doc_empty), (text_foo, doc_foo), (text_foo_app, doc_foo_app),
        (text_dot, doc_dot), (text_app1, doc_app1), (text_app1_twice, doc_app1_twice),
        (''tls: 3\<newline>'', JObj [(''tls'', JNum 3)])]"

definition sample_world :: "string list \<Rightarrow> string \<Rightarrow> world" where
  "sample_world files file =
     \<lparr>os = ''linux'', store = files, dirs = [], config = Some file, events = []\<rparr>"

text \<open>The world a first registration of \<open>app1.test\<close> leaves behind.\<close>

definition world_after_app1 :: world where
  "world_after_app1 =
     snd (addNewCertificate sample_yaml ''app1.test''
            (sample_world [''root.key'', ''root.pem''] text_empty))"

section \<open>Auxiliary facts\<close>

lemma length_filter_two:
  "distinct xs \<Longrightarrow> a \<noteq> b \<Longrightarrow>
   length (filter (\<lambda>x. x = a \<or> x = b) xs)
     = (if a \<in> set xs then 1 else 0) + (if b \<in> set xs then 1 else 0)"
  by (induction xs) auto

text \<open>A directory lists each name once, so two listed root files are the two root files.\<close>

lemma alreadyExists_two:
  "distinct (store w) \<Longrightarrow> length (alreadyExists w) = 2 \<longleftrightarrow> roots_present w"
  by (simp add: alreadyExists_def ROOT_CA_def roots_present_def length_filter_two)

lemma added_append [simp]: "added w (w\<lparr>events := events w @ es\<rparr>) = es"
  by (simp add: added_def)

lemma added_logger [simp]: "added w (logger l m w) = [Log l m]"
  by (simp add: logger_def)

lemma untouchedI:
  "events w' = events w @ es \<Longrightarrow> effects es = [] \<Longrightarrow> store w' = store w
   \<Longrightarrow> config w' = config w \<Longrightarrow> untouched w w'"
  by (simp add: untouched_def added_def)

lemma untouched_logger [simp]: "untouched w (logger l m w)"
  by (rule untouchedI [where es = "[Log l m]"]) (simp_all add: effects_def logger_def)

lemma untouched_read [simp]: "untouched w (w\<lparr>events := events w @ [ReadConfig]\<rparr>)"
  by (rule untouchedI [where es = "[ReadConfig]"]) (simp_all add: effects_def)

lemma untouched_read_logger [simp]:
  "untouched w (logger l m (w\<lparr>events := events w @ [ReadConfig]\<rparr>))"
  by (rule untouchedI [where es = "[ReadConfig, Log l m]"]) (simp_all add: effects_def logger_def)

lemma events_writeStoreFile:
  "events (snd (writeStoreFile n c w)) = events w @ [WriteStore n c]"
  by (simp add: writeStoreFile_def Let_def split: list.splits)

lemma config_writeStoreFile: "config (snd (writeStoreFile n c w)) = config w"
  by (simp add: writeStoreFile_def Let_def split: list.splits)

text \<open>
  The issuer calls the two first commands and the write of the extension file in every run;
  the signing command follows when the write has not thrown.
\<close>

lemma events_generateCertificate:
  "events (snd (generateCertificate D w)) = events w @
     [Exec (''openssl genrsa -out '' @ D @ ''.key 2048''),
      Exec (''openssl req -new -key '' @ D @ ''.key -out '' @ D @ ''.csr -subj '' @ [CHR 0x22]
              @ getCertificateSubject (Some D) @ [CHR 0x22]),
      WriteStore (D @ ''.ext'') (createExtensionString D)]
     @ (case fst (generateCertificate D w) of
          Inl h \<Rightarrow> []
        | Inr u \<Rightarrow>
            [Exec (''openssl x509 -req -in '' @ D
               @ ''.csr -CA root.pem -CAkey root.key -CAcreateserial -out ''
               @ D @ ''.crt -days 825 -sha256 -extfile '' @ D @ ''.ext'')])"
proof -
  let ?w2 = "shell_exec (''openssl req -new -key '' @ D @ ''.key -out '' @ D @ ''.csr -subj '' @ [CHR 0x22]
              @ getCertificateSubject (Some D) @ [CHR 0x22])
            (shell_exec (''openssl genrsa -out '' @ D @ ''.key 2048'') w)"
  obtain r w3 where r: "writeStoreFile (D @ ''.ext'') (createExtensionString D) ?w2 = (r, w3)"
    by (cases "writeStoreFile (D @ ''.ext'') (createExtensionString D) ?w2")
  from events_writeStoreFile [of "D @ ''.ext''" "createExtensionString D" ?w2] r
  have "events w3 = events ?w2 @ [WriteStore (D @ ''.ext'') (createExtensionString D)]"
    by simp
  with r show ?thesis
    by (cases r) (simp_all add: generateCertificate_def Let_def shell_exec_def)
qed

lemma config_generateCertificate: "config (snd (generateCertificate D w)) = config w"
proof -
  let ?w2 = "shell_exec (''openssl req -new -key '' @ D @ ''.key -out '' @ D @ ''.csr -subj '' @ [CHR 0x22]
              @ getCertificateSubject (Some D) @ [CHR 0x22])
            (shell_exec (''openssl genrsa -out '' @ D @ ''.key 2048'') w)"
  obtain r w3 where r: "writeStoreFile (D @ ''.ext'') (createExtensionString D) ?w2 = (r, w3)"
    by (cases "writeStoreFile (D @ ''.ext'') (createExtensionString D) ?w2")
  from config_writeStoreFile [of "D @ ''.ext''" "createExtensionString D" ?w2] r
  have "config w3 = config w"
    by (simp add: shell_exec_def)
  with r show ?thesis
    by (cases r) (simp_all add: generateCertificate_def Let_def shell_exec_def)
qed

text \<open>A name without a slash that is neither a dot-name nor empty lands in the store.\<close>

lemma fst_generateCertificate_plain:
  "store_target (D @ ''.ext'') = [f] \<Longrightarrow> f \<noteq> ''..'' \<Longrightarrow> fst (generateCertificate D w) = Inr ()"
  by (simp add: generateCertificate_def writeStoreFile_def Let_def)

text \<open>
  What the pattern accepts: exactly the paths \<open>/etc/ssl/traefik/d.crt\<close> whose \<open>d\<close> is a
  non-empty word over the character class, and \<open>d\<close> is the group.
\<close>

lemma match_certFile_Some:
  "match_certFile s = Some d \<longleftrightarrow>
     s = ''/etc/ssl/traefik/'' @ d @ ''.crt'' \<and> d \<noteq> [] \<and> list_all domain_char d"
proof
  assume m: "match_certFile s = Some d"
  let ?p = "''/etc/ssl/traefik/''"
  from m have pre: "prefix ?p s" and suf: "suffix ''.crt'' (drop (length ?p) s)"
    and d: "d = take (length s - length ?p - length ''.crt'') (drop (length ?p) s)"
    and ok: "d \<noteq> [] \<and> list_all domain_char d"
    by (auto simp: match_certFile_def Let_def split: if_splits)
  from pre obtain r where s: "s = ?p @ r" by (auto simp: prefix_def)
  from suf s obtain m' where r: "r = m' @ ''.crt''" by (auto simp: suffix_def)
  from d s r have "d = m'" by simp
  with s r ok show "s = ?p @ d @ ''.crt'' \<and> d \<noteq> [] \<and> list_all domain_char d" by simp
next
  assume "s = ''/etc/ssl/traefik/'' @ d @ ''.crt'' \<and> d \<noteq> [] \<and> list_all domain_char d"
  then have s: "s = ''/etc/ssl/traefik/'' @ (d @ ''.crt'')"
    and ok: "d \<noteq> []" "list_all domain_char d"
    by simp_all
  have 1: "prefix ''/etc/ssl/traefik/'' s" unfolding s by (rule prefixI) (rule refl)
  have 2: "drop (length ''/etc/ssl/traefik/'') s = d @ ''.crt''" unfolding s by simp
  have 3: "suffix ''.crt'' (d @ ''.crt'')" by (rule suffixI) (rule refl)
  have 4: "length s - length ''/etc/ssl/traefik/'' - length ''.crt'' = length d"
    unfolding s by simp
  show "match_certFile s = Some d"
    unfolding match_certFile_def Let_def 2 4 using 1 3 ok by simp
qed

lemma entry_matches_extracted:
  "extracted_domain c = Some D \<Longrightarrow> entry_matches D c = Inr True"
  by (auto simp: extracted_domain_def entry_matches_def match_certFile_def Let_def
           split: jsval.splits option.splits if_splits)

lemma find_entry_present:
  "c \<in> set certs \<Longrightarrow> extracted_domain c = Some D \<Longrightarrow> find_entry D certs \<noteq> Inr None"
  by (induction certs) (auto simp: entry_matches_extracted split: sum.splits bool.splits)

lemma find_entry_typed:
  "c \<in> set certs \<Longrightarrow> extracted_domain c = Some D \<Longrightarrow> list_all has_certFile certs
   \<Longrightarrow> \<exists>c'. find_entry D certs = Inr (Some c')"
  apply (induction certs)
   apply (auto simp: entry_matches_extracted split: sum.splits bool.splits)
  apply (auto simp: has_certFile_def entry_matches_def split: jsval.splits option.splits if_splits)
  done

lemma certificates_of_SomeD:
  assumes "certificates_of v = Some certs"
  obtains r t where "v = JObj r" "map_of r ''tls'' = Some (JObj t)"
    "map_of t ''certificates'' = Some (JArr certs)"
  using assms by (auto simp: certificates_of_def split: jsval.splits option.splits)

lemma push_certificate_shape:
  assumes "certificates_of v = Some certs"
  shows "\<exists>v'. push_certificate v e = Inr v' \<and> certificates_of v' = Some (certs @ [e])"
proof -
  from assms obtain r t where v: "v = JObj r" and r: "map_of r ''tls'' = Some (JObj t)"
    and t: "map_of t ''certificates'' = Some (JArr certs)"
    by (rule certificates_of_SomeD)
  show ?thesis
    by (simp add: v r t push_certificate_def certificates_of_def update_conv')
qed

lemma find_on_shapeless:
  assumes "certificates_of v = None"
  shows "case get_prop v ''tls'' of
           Inl e \<Rightarrow> True
         | Inr tls \<Rightarrow> (case get_prop tls ''certificates'' of
                         Inl e \<Rightarrow> True
                       | Inr existingCerts \<Rightarrow> js_find D existingCerts = Inl TypeError)"
  using assms
  by (cases v) (auto simp: certificates_of_def split: jsval.splits option.splits)

subsection \<open>The three ways a registration runs\<close>

lemma addNewCertificate_no_roots:
  "length (alreadyExists w) \<noteq> 2 \<Longrightarrow>
   addNewCertificate y D w =
     (Inl (Exit 1),
      logger Error ''Root certificate authority do not exist. You can generate it with selecting the second option of this CLI.'' w)"
  by (simp add: addNewCertificate_def verifyRootCertificates_def)

lemma addNewCertificate_shapeless:
  assumes "length (alreadyExists w) = 2" and "parsed_certificates y w = None"
  shows "\<exists>e. addNewCertificate y D w
              = (Inl (Uncaught e), w\<lparr>events := events w @ [ReadConfig]\<rparr>)"
proof (cases "config w")
  case None
  with assms(1) show ?thesis
    by (simp add: addNewCertificate_def verifyRootCertificates_def readConfigFile_def throw_def)
next
  case (Some cfg)
  show ?thesis
  proof (cases "parse y cfg")
    case None
    with Some assms(1) show ?thesis
      by (simp add: addNewCertificate_def verifyRootCertificates_def readConfigFile_def throw_def)
  next
    case (Some v)
    with \<open>config w = Some cfg\<close> assms(2) have "certificates_of v = None"
      by (simp add: parsed_certificates_def)
    from find_on_shapeless [OF this, of D] Some \<open>config w = Some cfg\<close> assms(1) show ?thesis
      by (auto simp: addNewCertificate_def verifyRootCertificates_def readConfigFile_def throw_def
               split: sum.splits)
  qed
qed

lemma addNewCertificate_shape:
  assumes "length (alreadyExists w) = 2" and "config w = Some cfg" and "parse y cfg = Some v"
    and "certificates_of v = Some certs"
  shows "addNewCertificate y D w =
     (let w1 = w\<lparr>events := events w @ [ReadConfig]\<rparr> in
      case find_entry D certs of
        Inl e \<Rightarrow> (Inl (Uncaught e), w1)
      | Inr (Some c) \<Rightarrow>
          (Inl (Exit 1),
           logger Error ''This domain is already registered locally. Please choose another one.'' w1)
      | Inr None \<Rightarrow>
          (case fst (generateCertificate D w1) of
             Inl h \<Rightarrow> (Inl h, snd (generateCertificate D w1))
           | Inr u \<Rightarrow>
          (case push_certificate v (new_entry D) of
             Inl e \<Rightarrow> (Inl (Uncaught e), snd (generateCertificate D w1))
           | Inr v' \<Rightarrow>
               (Inr (), writeConfigFile (stringify y v') (snd (generateCertificate D w1))))))"
proof -
  from assms(4) obtain r t where v: "v = JObj r" and r: "map_of r ''tls'' = Some (JObj t)"
    and t: "map_of t ''certificates'' = Some (JArr certs)"
    by (rule certificates_of_SomeD)
  show ?thesis
    by (simp add: addNewCertificate_def verifyRootCertificates_def readConfigFile_def throw_def
          assms(1-3) v r t Let_def split: sum.splits option.splits prod.splits)
qed

subsection \<open>Further facts\<close>

lemma parsed_certificates_SomeD:
  assumes "parsed_certificates y w = Some certs"
  obtains cfg v where "config w = Some cfg" "parse y cfg = Some v" "certificates_of v = Some certs"
  using assms by (auto simp: parsed_certificates_def split: option.splits)

lemma hd_added_registered:
  "hd (added w (writeConfigFile s
         (snd (generateCertificate D (w\<lparr>events := events w @ [ReadConfig]\<rparr>))))) = ReadConfig"
  by (simp add: added_def writeConfigFile_def events_generateCertificate)

lemma hd_added_issued:
  "hd (added w (snd (generateCertificate D (w\<lparr>events := events w @ [ReadConfig]\<rparr>))))
     = ReadConfig"
  by (simp add: added_def events_generateCertificate)

lemma hd_added_read_logger:
  "hd (added w (logger l m (w\<lparr>events := events w @ [ReadConfig]\<rparr>))) = ReadConfig"
  by (simp add: added_def logger_def)

lemma split_lines_line:
  "CHR ''\<newline>'' \<notin> set l \<Longrightarrow> split_lines (l @ CHR ''\<newline>'' # rest) = l # split_lines rest"
  by (induction l) auto

subsection \<open>The yaml model reads back what it writes\<close>

lemma plain_path_one_line: "plain_path s \<Longrightarrow> CHR ''\<newline>'' \<notin> set s"
  by (auto simp: plain_path_def list_all_iff plain_char_def)

lemma split_lines_emit_entry:
  assumes "plain_entry e"
  shows "split_lines (emit_entry e @ rest)
         = (''    - certFile: '' @ fst e) # (''      keyFile: '' @ snd e) # split_lines rest"
proof -
  from assms have c: "CHR ''\<newline>'' \<notin> set (''    - certFile: '' @ fst e)"
    and k: "CHR ''\<newline>'' \<notin> set (''      keyFile: '' @ snd e)"
    by (auto simp: plain_entry_def dest: plain_path_one_line)
  have "emit_entry e @ rest
      = (''    - certFile: '' @ fst e) @ CHR ''\<newline>''
          # ((''      keyFile: '' @ snd e) @ CHR ''\<newline>'' # rest)"
    by (simp add: emit_entry_def)
  then show ?thesis
    by (simp only: split_lines_line [OF c] split_lines_line [OF k])
qed

lemma parse_entries_emitted:
  "list_all plain_entry es \<Longrightarrow>
   parse_entries (split_lines (concat (map emit_entry es))) = Some es"
proof (induction es)
  case Nil
  then show ?case by simp
next
  case (Cons e es)
  then have e: "plain_entry e" and es: "list_all plain_entry es"
    by simp_all
  from e have p: "plain_path (fst e)" "plain_path (snd e)"
    by (simp_all add: plain_entry_def)
  have "split_lines (concat (map emit_entry (e # es)))
      = (''    - certFile: '' @ fst e) # (''      keyFile: '' @ snd e)
          # split_lines (concat (map emit_entry es))"
    using split_lines_emit_entry [OF e] by simp
  then show ?case
    using Cons.IH [OF es] p by (simp add: after_prefix_def)
qed

lemma parse_tls_emit_tls:
  assumes "list_all plain_entry es"
  shows "parse_tls (emit_tls es) = Some (tls_doc es)"
proof (cases es)
  case Nil
  then show ?thesis
    by (simp add: parse_tls_def emit_tls_def)
next
  case (Cons e es')
  with assms have e: "plain_entry e"
    by simp
  have lines: "split_lines (emit_tls es)
      = ''tls:'' # ''  certificates:'' # split_lines (concat (map emit_entry es))"
    using Cons by (simp add: emit_tls_def)
  have "split_lines (concat (map emit_entry es)) \<noteq> []"
    using split_lines_emit_entry [OF e, of "concat (map emit_entry es')"] Cons by simp
  with parse_entries_emitted [OF assms] show ?thesis
    by (simp add: parse_tls_def lines)
qed

lemma entry_paths_entry_of: "plain_entry e \<Longrightarrow> entry_paths (entry_of e) = Some e"
  by (simp add: entry_paths_def entry_of_def plain_entry_def)

lemma those_entry_paths:
  "list_all plain_entry es \<Longrightarrow> those (map (entry_paths \<circ> entry_of) es) = Some es"
  by (induction es) (simp_all add: entry_paths_entry_of)

lemma tls_entries_tls_doc: "list_all plain_entry es \<Longrightarrow> tls_entries (tls_doc es) = Some es"
  by (simp add: tls_entries_def tls_doc_def those_entry_paths)

lemma yaml_package_round_trip:
  assumes "list_all plain_entry es"
  shows "stringify (yaml_package other) (tls_doc es) = emit_tls es"
    and "parse (yaml_package other) (emit_tls es) = Some (tls_doc es)"
  using assms by (simp_all add: yaml_package_def tls_entries_tls_doc parse_tls_emit_tls)

subsection \<open>The conflict check on the domains the pattern extracts\<close>

text \<open>
  When some entry of the certificates sequence yields the requested domain through the
  pattern, registration ends with status 1, starts no process and writes no file. With the
  root files present and every entry carrying a string \<open>certFile\<close>, the run is the conflict
  exit itself; otherwise it is the missing-root exit or the uncaught exception of an earlier
  entry.
\<close>

lemma conflict_on_extracted_domain:
  assumes "parsed_certificates y w = Some certs" and "c \<in> set certs"
    and "extracted_domain c = Some D"
  shows "exit_code (fst (addNewCertificate y D w)) = Some 1
         \<and> untouched w (snd (addNewCertificate y D w))
         \<and> (distinct (store w) \<and> roots_present w \<and> list_all has_certFile certs \<longrightarrow>
              addNewCertificate y D w =
                (Inl (Exit 1),
                 logger Error ''This domain is already registered locally. Please choose another one.''
                   (w\<lparr>events := events w @ [ReadConfig]\<rparr>)))"
proof (cases "length (alreadyExists w) = 2")
  case False
  then have eq: "addNewCertificate y D w =
     (Inl (Exit 1),
      logger Error ''Root certificate authority do not exist. You can generate it with selecting the second option of this CLI.'' w)"
    by (rule addNewCertificate_no_roots)
  from False have "\<not> (distinct (store w) \<and> roots_present w)"
    by (auto simp: alreadyExists_two)
  moreover have "exit_code (fst (addNewCertificate y D w)) = Some 1
      \<and> untouched w (snd (addNewCertificate y D w))"
    unfolding eq by simp
  ultimately show ?thesis by blast
next
  case True
  from assms(1) obtain cfg v where cfg: "config w = Some cfg" "parse y cfg = Some v"
    "certificates_of v = Some certs"
    by (rule parsed_certificates_SomeD)
  note run = addNewCertificate_shape [OF True cfg, of D]
  from assms(2,3) have found: "find_entry D certs \<noteq> Inr None"
    by (rule find_entry_present)
  have general: "exit_code (fst (addNewCertificate y D w)) = Some 1
      \<and> untouched w (snd (addNewCertificate y D w))"
    using found unfolding run by (auto simp: Let_def split: sum.splits option.splits)
  have typed: "addNewCertificate y D w =
      (Inl (Exit 1),
       logger Error ''This domain is already registered locally. Please choose another one.''
         (w\<lparr>events := events w @ [ReadConfig]\<rparr>))"
    if "list_all has_certFile certs"
  proof -
    from assms(2,3) that obtain c' where "find_entry D certs = Inr (Some c')"
      by (blast dest: find_entry_typed)
    then show ?thesis unfolding run by (simp add: Let_def)
  qed
  from general typed show ?thesis by blast
qed

lemma conflict_on_extracted_domain_example:
  "parsed_certificates sample_yaml (sample_world [''root.key'', ''root.pem''] text_foo)
      = Some [new_entry ''foo.test'']
   \<and> new_entry ''foo.test'' \<in> set [new_entry ''foo.test'']
   \<and> extracted_domain (new_entry ''foo.test'') = Some ''foo.test''
   \<and> addNewCertificate sample_yaml ''foo.test'' (sample_world [''root.key'', ''root.pem''] text_foo)
       = (Inl (Exit 1),
          \<lparr>os = ''linux'', store = [''root.key'', ''root.pem''], dirs = [], config = Some text_foo,
             events = [ReadConfig,
               Log Error ''This domain is already registered locally. Please choose another one.'']\<rparr>)"
proof -
  let ?w = "sample_world [''root.key'', ''root.pem''] text_foo"
  have 1: "parsed_certificates sample_yaml ?w = Some [new_entry ''foo.test'']"
    by code_simp
  have 2: "new_entry ''foo.test'' \<in> set [new_entry ''foo.test'']"
    by simp
  have 3: "extracted_domain (new_entry ''foo.test'') = Some ''foo.test''"
    by code_simp
  have 4: "distinct (store ?w) \<and> roots_present ?w \<and> list_all has_certFile [new_entry ''foo.test'']"
    by (simp add: sample_world_def roots_present_def has_certFile_def new_entry_def)
  from conflict_on_extracted_domain [OF 1 2 3] 4 1 2 3 show ?thesis
    by (simp add: sample_world_def logger_def)
qed

section \<open>The properties\<close>

text \<open>
  C1. A domain already present in the config, that is, with an entry whose \<open>certFile\<close> is
  \<open>/etc/ssl/traefik/{domain}.crt\<close> for that domain, is to be rejected with status 1, without
  issuance and with the config unchanged. The pattern of the conflict check has no digit in its
  character class, so it extracts nothing from the entry the tool itself writes for
  \<open>app1.test\<close>: registering \<open>app1.test\<close> a second time, in the world the first registration
  left, passes the check, returns normally, runs the issuance again and appends a second
  entry for the same domain.
\<close>

theorem digit_domain_is_registered_twice:
  "validate ''app1.test'' = Valid
   \<and> fst (addNewCertificate sample_yaml ''app1.test''
             (sample_world [''root.key'', ''root.pem''] text_empty)) = Inr ()
   \<and> config world_after_app1 = Some text_app1
   \<and> parsed_certificates sample_yaml world_after_app1
       = Some [JObj [(''certFile'', JStr ''/etc/ssl/traefik/app1.test.crt''),
                     (''keyFile'', JStr ''/etc/ssl/traefik/app1.test.key'')]]
   \<and> match_certFile ''/etc/ssl/traefik/app1.test.crt'' = None
   \<and> fst (addNewCertificate sample_yaml ''app1.test'' world_after_app1) = Inr ()
   \<and> exit_code (fst (addNewCertificate sample_yaml ''app1.test'' world_after_app1)) = Some 0
   \<and> added world_after_app1 (snd (addNewCertificate sample_yaml ''app1.test'' world_after_app1))
       = [ReadConfig,
          Exec ''openssl genrsa -out app1.test.key 2048'',
          Exec (''openssl req -new -key app1.test.key -out app1.test.csr -subj '' @ [CHR 0x22]
                  @ ''/C=FR/ST=azerty/L=azerty/O=azerty/OU=azerty/CN=app1.test'' @ [CHR 0x22]),
          WriteStore ''app1.test.ext'' (createExtensionString ''app1.test''),
          Exec ''openssl x509 -req -in app1.test.csr -CA root.pem -CAkey root.key -CAcreateserial -out app1.test.crt -days 825 -sha256 -extfile app1.test.ext'',
          WriteConfig text_app1_twice]
   \<and> config (snd (addNewCertificate sample_yaml ''app1.test'' world_after_app1))
       = Some text_app1_twice
   \<and> parsed_certificates sample_yaml
        (snd (addNewCertificate sample_yaml ''app1.test'' world_after_app1))
       = Some [new_entry ''app1.test'', new_entry ''app1.test'']"
  by code_simp

text \<open>
  C2. With the root files present, registering \<open>foo.test\<close> against a config that parses to an
  empty certificates sequence succeeds, and the document that is serialized into the config has
  a certificates sequence of length 1 whose entry is \<open>{certFile:
  /etc/ssl/traefik/foo.test.crt, keyFile: /etc/ssl/traefik/foo.test.key}\<close>. When the parsed
  config is the document \<open>{tls: {certificates: []}}\<close>, the rewritten file is the YAML text of
  that one entry, and parsing it gives the entry back.
\<close>

theorem register_foo_test_on_empty_config:
  assumes "distinct (store w)" and "roots_present w"
    and "config w = Some cfg" and "parse (yaml_package other) cfg = Some v"
    and "certificates_of v = Some []"
  shows "fst (addNewCertificate (yaml_package other) ''foo.test'' w) = Inr ()
         \<and> (\<exists>v'. push_certificate v (new_entry ''foo.test'') = Inr v'
                \<and> certificates_of v' =
                    Some [JObj [(''certFile'', JStr ''/etc/ssl/traefik/foo.test.crt''),
                                (''keyFile'', JStr ''/etc/ssl/traefik/foo.test.key'')]]
                \<and> config (snd (addNewCertificate (yaml_package other) ''foo.test'' w))
                    = Some (stringify (yaml_package other) v'))
         \<and> (v = doc_empty \<longrightarrow>
              config (snd (addNewCertificate (yaml_package other) ''foo.test'' w)) = Some text_foo
              \<and> parse (yaml_package other) text_foo = Some doc_foo
              \<and> parsed_certificates (yaml_package other)
                   (snd (addNewCertificate (yaml_package other) ''foo.test'' w)) =
                  Some [JObj [(''certFile'', JStr ''/etc/ssl/traefik/foo.test.crt''),
                              (''keyFile'', JStr ''/etc/ssl/traefik/foo.test.key'')]])"
proof -
  let ?y = "yaml_package other"
  let ?w1 = "w\<lparr>events := events w @ [ReadConfig]\<rparr>"
  let ?r = "addNewCertificate ?y ''foo.test'' w"
  let ?paths = "[(''/etc/ssl/traefik/foo.test.crt'', ''/etc/ssl/traefik/foo.test.key'')]"
  from assms(1,2) have roots: "length (alreadyExists w) = 2"
    by (simp add: alreadyExists_two)
  from push_certificate_shape [OF assms(5), of "new_entry ''foo.test''"]
  obtain v' where v': "push_certificate v (new_entry ''foo.test'') = Inr v'"
    "certificates_of v' = Some [new_entry ''foo.test'']" by auto
  have "store_target (''foo.test'' @ ''.ext'') = [''foo.test.ext'']"
    by (simp add: store_target_def)
  then have issued: "fst (generateCertificate ''foo.test'' ?w1) = Inr ()"
    by (rule fst_generateCertificate_plain) simp
  have run: "?r = (Inr (), writeConfigFile (stringify ?y v') (snd (generateCertificate ''foo.test'' ?w1)))"
    unfolding addNewCertificate_shape [OF roots assms(3,4,5)] by (simp add: v'(1) issued)
  have entry: "new_entry ''foo.test'' =
      JObj [(''certFile'', JStr ''/etc/ssl/traefik/foo.test.crt''),
            (''keyFile'', JStr ''/etc/ssl/traefik/foo.test.key'')]"
    by (simp add: new_entry_def)
  have written: "config (snd ?r) = Some (stringify ?y v')"
    unfolding run by (simp add: writeConfigFile_def)
  have ok: "fst ?r = Inr ()"
    unfolding run by simp
  have reparse: "config (snd ?r) = Some text_foo
      \<and> parse ?y text_foo = Some doc_foo
      \<and> parsed_certificates ?y (snd ?r) = Some [new_entry ''foo.test'']" if "v = doc_empty"
  proof -
    have plain: "list_all plain_entry ?paths"
      by (simp add: plain_entry_def plain_path_def plain_char_def)
    have document: "tls_doc ?paths = doc_foo"
      by (simp add: tls_doc_def entry_of_def doc_foo_def new_entry_def)
    have emitted: "emit_tls ?paths = text_foo"
      by (simp add: emit_tls_def emit_entry_def text_foo_def)
    from that v'(1) have "v' = doc_foo"
      by (simp add: doc_empty_def doc_foo_def push_certificate_def)
    with written yaml_package_round_trip [OF plain, of other]
    have 1: "config (snd ?r) = Some text_foo" and 2: "parse ?y text_foo = Some doc_foo"
      by (simp_all add: document emitted)
    have "certificates_of doc_foo = Some [new_entry ''foo.test'']"
      by (simp add: doc_foo_def certificates_of_def)
    with 1 2 show ?thesis
      by (simp add: parsed_certificates_def)
  qed
  from ok written v' reparse show ?thesis
    unfolding entry by blast
qed

theorem register_foo_test_on_empty_config_witness:
  "distinct (store (sample_world [''root.key'', ''root.pem''] text_empty))
   \<and> roots_present (sample_world [''root.key'', ''root.pem''] text_empty)
   \<and> config (sample_world [''root.key'', ''root.pem''] text_empty) = Some text_empty
   \<and> parse (yaml_package sample_yaml) text_empty = Some doc_empty
   \<and> certificates_of doc_empty = Some []
   \<and> fst (addNewCertificate (yaml_package sample_yaml) ''foo.test''
             (sample_world [''root.key'', ''root.pem''] text_empty)) = Inr ()
   \<and> config (snd (addNewCertificate (yaml_package sample_yaml) ''foo.test''
                    (sample_world [''root.key'', ''root.pem''] text_empty))) = Some text_foo
   \<and> parse (yaml_package sample_yaml) text_foo = Some doc_foo
   \<and> parsed_certificates (yaml_package sample_yaml)
        (snd (addNewCertificate (yaml_package sample_yaml) ''foo.test''
               (sample_world [''root.key'', ''root.pem''] text_empty)))
       = Some [JObj [(''certFile'', JStr ''/etc/ssl/traefik/foo.test.crt''),
                     (''keyFile'', JStr ''/etc/ssl/traefik/foo.test.key'')]]"
proof -
  let ?w = "sample_world [''root.key'', ''root.pem''] text_empty"
  have 1: "distinct (store ?w)" by code_simp
  have 2: "roots_present ?w" by code_simp
  have 3: "config ?w = Some text_empty" by (simp add: sample_world_def)
  have 4: "parse (yaml_package sample_yaml) text_empty = Some doc_empty" by code_simp
  have 5: "certificates_of doc_empty = Some []" by code_simp
  from register_foo_test_on_empty_config [OF 1 2 3 4 5] 1 2 3 4 5 show ?thesis
    by blast
qed

text \<open>
  C3. When the store directory lacks \<open>root.pem\<close> or \<open>root.key\<close>, registering any domain
  ends the process with status 1 after a single error line: no process is started, the config
  file is neither read nor written, and the store is as it was.
\<close>

theorem missing_root_rejects_issuance:
  assumes "distinct (store w)" and "\<not> roots_present w"
  shows "addNewCertificate y D w =
           (Inl (Exit 1),
            logger Error ''Root certificate authority do not exist. You can generate it with selecting the second option of this CLI.'' w)
         \<and> exit_code (fst (addNewCertificate y D w)) = Some 1
         \<and> added w (snd (addNewCertificate y D w)) =
             [Log Error ''Root certificate authority do not exist. You can generate it with selecting the second option of this CLI.'']
         \<and> untouched w (snd (addNewCertificate y D w))"
proof -
  from assms have "length (alreadyExists w) \<noteq> 2"
    by (simp add: alreadyExists_two)
  then have eq: "addNewCertificate y D w =
     (Inl (Exit 1),
      logger Error ''Root certificate authority do not exist. You can generate it with selecting the second option of this CLI.'' w)"
    by (rule addNewCertificate_no_roots)
  show ?thesis
    unfolding eq by simp
qed

theorem missing_root_rejects_issuance_witness:
  "distinct (store (sample_world [''root.pem''] text_empty))
   \<and> \<not> roots_present (sample_world [''root.pem''] text_empty)
   \<and> exit_code (fst (addNewCertificate sample_yaml ''foo.test''
                       (sample_world [''root.pem''] text_empty))) = Some 1
   \<and> untouched (sample_world [''root.pem''] text_empty)
       (snd (addNewCertificate sample_yaml ''foo.test'' (sample_world [''root.pem''] text_empty)))"
  using missing_root_rejects_issuance
      [of "sample_world [''root.pem''] text_empty" sample_yaml "''foo.test''"]
  by (simp add: sample_world_def roots_present_def)

text \<open>
  C4. On a supported platform, authority creation does nothing exactly when both root files are
  listed in the store: then it exits with status 0 after one log line, starting no process and
  writing no file. When one of them or both are missing it runs the key generation command and
  then the certificate generation command of the platform, and nothing else.
\<close>

theorem authority_creation_noop_iff_roots_present:
  assumes "distinct (store w)" and "platformVariants (os w) = Some v"
  shows "(roots_present w \<longrightarrow>
            createCertificateAuthority w =
              (Inl (Exit 0), logger Info ''Root certificate authority already exist.'' w)
            \<and> exit_code (fst (createCertificateAuthority w)) = Some 0
            \<and> untouched w (snd (createCertificateAuthority w)))
         \<and> (\<not> roots_present w \<longrightarrow>
            fst (createCertificateAuthority w) = Inr ()
            \<and> effects (added w (snd (createCertificateAuthority w)))
                = [Exec (keyCmd v), Exec (certCmd v)])"
proof (cases "roots_present w")
  case True
  with assms(1) have "length (alreadyExists w) = 2"
    by (simp add: alreadyExists_two)
  then have eq: "createCertificateAuthority w =
      (Inl (Exit 0), logger Info ''Root certificate authority already exist.'' w)"
    by (simp add: createCertificateAuthority_def)
  from True show ?thesis
    unfolding eq by simp
next
  case False
  with assms(1) have "length (alreadyExists w) \<noteq> 2"
    by (simp add: alreadyExists_two)
  with assms(2) False show ?thesis
    by (simp add: createCertificateAuthority_def Let_def logger_def shell_exec_def added_def
          effects_def)
qed

theorem authority_creation_noop_iff_roots_present_witness:
  "distinct (store (sample_world [''root.key'', ''root.pem''] text_empty))
   \<and> roots_present (sample_world [''root.key'', ''root.pem''] text_empty)
   \<and> \<not> roots_present (sample_world [''root.key''] text_empty)
   \<and> fst (createCertificateAuthority (sample_world [''root.key'', ''root.pem''] text_empty)) = Inl (Exit 0)
   \<and> untouched (sample_world [''root.key'', ''root.pem''] text_empty)
        (snd (createCertificateAuthority (sample_world [''root.key'', ''root.pem''] text_empty)))
   \<and> fst (createCertificateAuthority (sample_world [''root.key''] text_empty)) = Inr ()
   \<and> effects (added (sample_world [''root.key''] text_empty)
               (snd (createCertificateAuthority (sample_world [''root.key''] text_empty))))
       = [Exec ''openssl genrsa -des3 -out root.key 2048'',
          Exec (''openssl req -x509 -new -nodes -key root.key -sha256 -days 1825 -out root.pem -subj ''
                @ [CHR 0x22] @ ''/C=FR/ST=azerty/L=azerty/O=azerty/OU=azerty/CN=Root CA'' @ [CHR 0x22])]"
  using authority_creation_noop_iff_roots_present
      [of "sample_world [''root.key'', ''root.pem''] text_empty" "the (platformVariants ''linux'')"]
    authority_creation_noop_iff_roots_present
      [of "sample_world [''root.key''] text_empty" "the (platformVariants ''linux'')"]
  by (simp add: sample_world_def roots_present_def platformVariants_def getCertificateSubject_def)

text \<open>
  C5. The validation of the domain prompt accepts an answer exactly when it is not empty and
  ends with \<open>.test\<close>. A rejected answer is asked again: the run continues with the next answer
  and ends as if the rejected one had never been given, so it leaves no trace in the world.
\<close>

theorem validation_accepts_exactly_test_suffix:
  "(validate D = Valid \<longleftrightarrow> D \<noteq> [] \<and> suffix ''.test'' D)
   \<and> (validate D \<noteq> Valid \<longrightarrow>
        ask (D # rest) = ask rest
        \<and> start y Site_cert (D # rest) w = start y Site_cert rest w)"
  by (cases "validate D") (auto simp: validate_def start_def split: if_splits)

theorem validation_accepts_exactly_test_suffix_witness:
  "validate ''foo.com'' \<noteq> Valid
   \<and> ask [''foo.com'', ''foo.test''] = Some ''foo.test''
   \<and> start sample_yaml Site_cert [''foo.com'', ''foo.test'']
        (sample_world [''root.key'', ''root.pem''] text_empty)
     = start sample_yaml Site_cert [''foo.test'']
        (sample_world [''root.key'', ''root.pem''] text_empty)"
  using validation_accepts_exactly_test_suffix
    [of "''foo.com''" "[''foo.test'']" sample_yaml
        "sample_world [''root.key'', ''root.pem''] text_empty"]
  by (simp add: validate_def suffix_to_prefix)

text \<open>
  C6. A registration that succeeds writes a config whose certificates sequence is the former
  sequence followed by one new entry: it is one longer, every former entry is at its former
  position, and the last entry is the new one. When the yaml package parses back what it
  serialized, this is the sequence the rewritten file holds.
\<close>

theorem registration_appends_one_entry:
  assumes "addNewCertificate y D w = (Inr (), w')"
    and "config w = Some cfg" and "parse y cfg = Some v" and "certificates_of v = Some certs"
  shows "\<exists>v' certs'. push_certificate v (new_entry D) = Inr v'
           \<and> config w' = Some (stringify y v') \<and> certificates_of v' = Some certs'
           \<and> (parse y (stringify y v') = Some v' \<longrightarrow> parsed_certificates y w' = Some certs')
           \<and> certs' = certs @ [new_entry D]
           \<and> length certs' = length certs + 1
           \<and> take (length certs) certs' = certs
           \<and> (\<forall>i < length certs. certs' ! i = certs ! i)
           \<and> last certs' = new_entry D"
proof -
  have roots: "length (alreadyExists w) = 2"
  proof (rule ccontr)
    assume "length (alreadyExists w) \<noteq> 2"
    from addNewCertificate_no_roots [OF this, of y D] assms(1) show False by simp
  qed
  note cfg = assms(2,3,4)
  from push_certificate_shape [OF cfg(3), of "new_entry D"]
  obtain v' where v': "push_certificate v (new_entry D) = Inr v'"
    "certificates_of v' = Some (certs @ [new_entry D])" by blast
  from assms(1) have "w' = writeConfigFile (stringify y v')
      (snd (generateCertificate D (w\<lparr>events := events w @ [ReadConfig]\<rparr>)))"
    unfolding addNewCertificate_shape [OF roots cfg, of D]
    by (auto simp: Let_def v' split: sum.splits option.splits)
  then have "config w' = Some (stringify y v')"
    by (simp add: writeConfigFile_def)
  with v' have "push_certificate v (new_entry D) = Inr v'
           \<and> config w' = Some (stringify y v') \<and> certificates_of v' = Some (certs @ [new_entry D])
           \<and> (parse y (stringify y v') = Some v'
                \<longrightarrow> parsed_certificates y w' = Some (certs @ [new_entry D]))
           \<and> certs @ [new_entry D] = certs @ [new_entry D]
           \<and> length (certs @ [new_entry D]) = length certs + 1
           \<and> take (length certs) (certs @ [new_entry D]) = certs
           \<and> (\<forall>i < length certs. (certs @ [new_entry D]) ! i = certs ! i)
           \<and> last (certs @ [new_entry D]) = new_entry D"
    by (simp add: nth_append parsed_certificates_def)
  then show ?thesis by blast
qed

theorem registration_appends_one_entry_witness:
  "fst (addNewCertificate sample_yaml ''app.test'' (sample_world [''root.key'', ''root.pem''] text_foo))
     = Inr ()
   \<and> config (sample_world [''root.key'', ''root.pem''] text_foo) = Some text_foo
   \<and> parse sample_yaml text_foo = Some doc_foo
   \<and> certificates_of doc_foo = Some [new_entry ''foo.test'']
   \<and> parse sample_yaml (stringify sample_yaml doc_foo_app) = Some doc_foo_app
   \<and> push_certificate doc_foo (new_entry ''app.test'') = Inr doc_foo_app
   \<and> config (snd (addNewCertificate sample_yaml ''app.test''
                    (sample_world [''root.key'', ''root.pem''] text_foo)))
       = Some (stringify sample_yaml doc_foo_app)
   \<and> parsed_certificates sample_yaml
        (snd (addNewCertificate sample_yaml ''app.test''
               (sample_world [''root.key'', ''root.pem''] text_foo)))
       = Some [new_entry ''foo.test'', new_entry ''app.test'']"
proof -
  let ?w = "sample_world [''root.key'', ''root.pem''] text_foo"
  let ?r = "addNewCertificate sample_yaml ''app.test'' ?w"
  have 1: "fst ?r = Inr ()"
    by code_simp
  then have 2: "?r = (Inr (), snd ?r)"
    by (simp add: prod_eq_iff)
  have 3: "config ?w = Some text_foo"
    by (simp add: sample_world_def)
  have 4: "parse sample_yaml text_foo = Some doc_foo"
    by code_simp
  have 5: "certificates_of doc_foo = Some [new_entry ''foo.test'']"
    by code_simp
  have 6: "parse sample_yaml (stringify sample_yaml doc_foo_app) = Some doc_foo_app"
    by code_simp
  have 7: "push_certificate doc_foo (new_entry ''app.test'') = Inr doc_foo_app"
    by code_simp
  from registration_appends_one_entry [OF 2 3 4 5] 6 7
  have "config (snd ?r) = Some (stringify sample_yaml doc_foo_app)
     \<and> parsed_certificates sample_yaml (snd ?r) = Some [new_entry ''foo.test'', new_entry ''app.test'']"
    by auto
  with 1 3 4 5 6 7 show ?thesis by blast
qed

text \<open>
  C7. The extension file written for a domain \<open>D\<close> contains \<open>basicConstraints=CA:FALSE\<close>,
  and what follows the \<open>[alt_names]\<close> header is exactly the two assignments \<open>DNS.1 = D\<close> and
  \<open>DNS.2 = *.D\<close>. For a domain without a line break (a prompt answer is one line) the file has
  the eight lines below, the last two being its only subject-alternative-name entries.
\<close>

theorem extension_file_names_domain_and_wildcard:
  "sublist ''basicConstraints=CA:FALSE'' (createExtensionString D)
   \<and> after_first ''[alt_names]\<newline>'' (createExtensionString D)
       = Some (''DNS.1 = '' @ D @ ''\<newline>'' @ ''DNS.2 = *.'' @ D @ ''\<newline>'')
   \<and> (CHR ''\<newline>'' \<notin> set D \<longrightarrow>
        split_lines (createExtensionString D) =
          [''authorityKeyIdentifier=keyid,issuer'',
           ''basicConstraints=CA:FALSE'',
           ''keyUsage = digitalSignature, nonRepudiation, keyEncipherment, dataEncipherment'',
           ''subjectAltName = @alt_names'',
           [],
           ''[alt_names]'',
           ''DNS.1 = '' @ D,
           ''DNS.2 = *.'' @ D])
   \<and> WriteStore (D @ ''.ext'') (createExtensionString D) \<in> set (events (snd (generateCertificate D w)))"
proof -
  have a: "sublist ''basicConstraints=CA:FALSE'' (createExtensionString D)"
    unfolding sublist_def createExtensionString_def
    by (rule exI [of _ "''authorityKeyIdentifier=keyid,issuer\<newline>''"], rule exI) simp
  have b: "after_first ''[alt_names]\<newline>'' (createExtensionString D)
       = Some (''DNS.1 = '' @ D @ ''\<newline>'' @ ''DNS.2 = *.'' @ D @ ''\<newline>'')"
    by (simp add: createExtensionString_def)
  have c: "split_lines (createExtensionString D) =
          [''authorityKeyIdentifier=keyid,issuer'',
           ''basicConstraints=CA:FALSE'',
           ''keyUsage = digitalSignature, nonRepudiation, keyEncipherment, dataEncipherment'',
           ''subjectAltName = @alt_names'',
           [],
           ''[alt_names]'',
           ''DNS.1 = '' @ D,
           ''DNS.2 = *.'' @ D]" if "CHR ''\<newline>'' \<notin> set D"
  proof -
    have 1: "split_lines ((''DNS.2 = *.'' @ D) @ CHR ''\<newline>'' # []) = [''DNS.2 = *.'' @ D]"
      using that by (subst split_lines_line) auto
    have 2: "split_lines ((''DNS.1 = '' @ D) @ CHR ''\<newline>'' # (''DNS.2 = *.'' @ D) @ ''\<newline>'')
       = [''DNS.1 = '' @ D, ''DNS.2 = *.'' @ D]"
      using that 1 by (subst split_lines_line) auto
    have 3: "createExtensionString D =
       ''authorityKeyIdentifier=keyid,issuer\<newline>basicConstraints=CA:FALSE\<newline>''
       @ ''keyUsage = digitalSignature, nonRepudiation, keyEncipherment, dataEncipherment\<newline>''
       @ ''subjectAltName = @alt_names\<newline>\<newline>[alt_names]\<newline>''
       @ ((''DNS.1 = '' @ D) @ CHR ''\<newline>'' # (''DNS.2 = *.'' @ D) @ ''\<newline>'')"
      by (simp add: createExtensionString_def)
    show ?thesis
      unfolding 3 using 2 by simp
  qed
  have d: "WriteStore (D @ ''.ext'') (createExtensionString D) \<in> set (events (snd (generateCertificate D w)))"
    by (simp add: events_generateCertificate)
  from a b c d show ?thesis by blast
qed

theorem extension_file_names_domain_and_wildcard_witness:
  "CHR ''\<newline>'' \<notin> set ''foo.test''
   \<and> split_lines (createExtensionString ''foo.test'') =
          [''authorityKeyIdentifier=keyid,issuer'',
           ''basicConstraints=CA:FALSE'',
           ''keyUsage = digitalSignature, nonRepudiation, keyEncipherment, dataEncipherment'',
           ''subjectAltName = @alt_names'',
           [],
           ''[alt_names]'',
           ''DNS.1 = foo.test'',
           ''DNS.2 = *.foo.test'']
   \<and> after_first ''[alt_names]\<newline>'' (createExtensionString ''foo.test'')
       = Some ''DNS.1 = foo.test\<newline>DNS.2 = *.foo.test\<newline>''"
  using extension_file_names_domain_and_wildcard [of "''foo.test''"]
  by simp

text \<open>
  C8. On a platform other than \<open>darwin\<close>, \<open>linux\<close> and \<open>win32\<close> the program ends with status 1
  at once, whatever the action and the answers: the only event is the error line, no process
  is started and no file is read or written.
\<close>

theorem unsupported_platform_exits:
  assumes "os w \<notin> {''darwin'', ''linux'', ''win32''}"
  shows "start y act answers w =
           (Inl (Exit 1), logger Error ''Your operating system is not supported by this tool.'' w)
         \<and> exit_code (fst (start y act answers w)) = Some 1
         \<and> added w (snd (start y act answers w))
             = [Log Error ''Your operating system is not supported by this tool.'']
         \<and> untouched w (snd (start y act answers w))"
proof -
  from assms have eq: "start y act answers w =
      (Inl (Exit 1), logger Error ''Your operating system is not supported by this tool.'' w)"
    by (simp add: start_def)
  show ?thesis
    unfolding eq by simp
qed

theorem unsupported_platform_exits_witness:
  "os (sample_world [] text_empty\<lparr>os := ''freebsd''\<rparr>) \<notin> {''darwin'', ''linux'', ''win32''}
   \<and> fst (start sample_yaml Site_cert [''foo.test'']
            (sample_world [] text_empty\<lparr>os := ''freebsd''\<rparr>)) = Inl (Exit 1)
   \<and> fst (start sample_yaml Root_ca []
            (sample_world [] text_empty\<lparr>os := ''freebsd''\<rparr>)) = Inl (Exit 1)"
  using unsupported_platform_exits
      [of "sample_world [] text_empty\<lparr>os := ''freebsd''\<rparr>" sample_yaml Site_cert "[''foo.test'']"]
    unsupported_platform_exits
      [of "sample_world [] text_empty\<lparr>os := ''freebsd''\<rparr>" sample_yaml Root_ca "[]"]
  by (simp add: sample_world_def)

text \<open>
  C9. The answer \<open>.test\<close>, with nothing before the suffix, passes the validation, so the
  register flow calls \<open>addNewCertificate\<close> with the domain \<open>.test\<close>.
\<close>

theorem bare_suffix_is_a_valid_domain:
  "validate ''.test'' = Valid
   \<and> ask (''.test'' # rest) = Some ''.test''
   \<and> (os w \<in> {''darwin'', ''linux''} \<longrightarrow>
        start y Site_cert (''.test'' # rest) w = addNewCertificate y ''.test'' w)
   \<and> (os w = ''win32'' \<longrightarrow>
        start y Site_cert (''.test'' # rest) w =
          addNewCertificate y ''.test''
            (logger Info ''If you are running on Windows, you need to execute this tool inside WSL in order to work with openssl.'' w))"
proof -
  have v: "validate ''.test'' = Valid"
    by (simp add: validate_def suffix_to_prefix)
  then have a: "ask (''.test'' # rest) = Some ''.test''"
    by simp
  from a show ?thesis
    using v by (auto simp: start_def)
qed

theorem bare_suffix_is_a_valid_domain_witness:
  "os (sample_world [''root.key'', ''root.pem''] text_empty) \<in> {''darwin'', ''linux''}
   \<and> fst (start sample_yaml Site_cert [''.test''] (sample_world [''root.key'', ''root.pem''] text_empty))
       = Inr ()
   \<and> Exec ''openssl genrsa -out .test.key 2048''
       \<in> set (events (snd (start sample_yaml Site_cert [''.test'']
                             (sample_world [''root.key'', ''root.pem''] text_empty))))
   \<and> parsed_certificates sample_yaml
        (snd (start sample_yaml Site_cert [''.test'']
               (sample_world [''root.key'', ''root.pem''] text_empty)))
       = Some [JObj [(''certFile'', JStr ''/etc/ssl/traefik/.test.crt''),
                     (''keyFile'', JStr ''/etc/ssl/traefik/.test.key'')]]"
proof -
  let ?w = "sample_world [''root.key'', ''root.pem''] text_empty"
  have 1: "os ?w \<in> {''darwin'', ''linux''}"
    by (simp add: sample_world_def)
  have 2: "fst (addNewCertificate sample_yaml ''.test'' ?w) = Inr ()"
    by code_simp
  have 3: "Exec ''openssl genrsa -out .test.key 2048''
       \<in> set (events (snd (addNewCertificate sample_yaml ''.test'' ?w)))"
    by code_simp
  have 4: "parsed_certificates sample_yaml (snd (addNewCertificate sample_yaml ''.test'' ?w))
       = Some [JObj [(''certFile'', JStr ''/etc/ssl/traefik/.test.crt''),
                     (''keyFile'', JStr ''/etc/ssl/traefik/.test.key'')]]"
    by code_simp
  from bare_suffix_is_a_valid_domain [of "[]" ?w sample_yaml] 1
  have "start sample_yaml Site_cert [''.test''] ?w = addNewCertificate sample_yaml ''.test'' ?w"
    by blast
  with 1 2 3 4 show ?thesis by simp
qed

text \<open>
  C10. Registration reads and parses the config file before it issues anything. When the
  file cannot be read, does not parse, or parses to a value that is not of the shape
  \<open>{tls: {certificates: [...]}}\<close>, the run aborts with status 1 having started no process and
  written no file, so the store is unchanged. In every run that starts a process or writes a
  file, reading the config is the first thing that happened.
\<close>

theorem unusable_config_aborts_before_issuance:
  "(parsed_certificates y w = None \<longrightarrow>
      (\<exists>h. fst (addNewCertificate y D w) = Inl h)
      \<and> exit_code (fst (addNewCertificate y D w)) = Some 1
      \<and> untouched w (snd (addNewCertificate y D w)))
   \<and> (effects (added w (snd (addNewCertificate y D w))) \<noteq> [] \<longrightarrow>
        hd (added w (snd (addNewCertificate y D w))) = ReadConfig)"
proof (cases "length (alreadyExists w) = 2")
  case False
  then have eq: "addNewCertificate y D w =
     (Inl (Exit 1),
      logger Error ''Root certificate authority do not exist. You can generate it with selecting the second option of this CLI.'' w)"
    by (rule addNewCertificate_no_roots)
  show ?thesis
    unfolding eq by (simp add: effects_def)
next
  case True
  show ?thesis
  proof (cases "parsed_certificates y w")
    case None
    from addNewCertificate_shapeless [OF True None, of D]
    obtain e where eq: "addNewCertificate y D w
        = (Inl (Uncaught e), w\<lparr>events := events w @ [ReadConfig]\<rparr>)" ..
    show ?thesis
      unfolding eq by simp
  next
    case (Some certs)
    then obtain cfg v where cfg: "config w = Some cfg" "parse y cfg = Some v"
      "certificates_of v = Some certs"
      by (rule parsed_certificates_SomeD)
    have "hd (added w (snd (addNewCertificate y D w))) = ReadConfig"
      unfolding addNewCertificate_shape [OF True cfg, of D] Let_def
      by (simp add: hd_added_issued hd_added_registered hd_added_read_logger
            split: sum.splits option.splits)
    with Some show ?thesis by simp
  qed
qed

theorem unusable_config_aborts_before_issuance_witness:
  "parsed_certificates sample_yaml (sample_world [''root.key'', ''root.pem''] ''tls: 3\<newline>'') = None
   \<and> addNewCertificate sample_yaml ''foo.test''
        (sample_world [''root.key'', ''root.pem''] ''tls: 3\<newline>'')
       = (Inl (Uncaught TypeError),
          \<lparr>os = ''linux'', store = [''root.key'', ''root.pem''], dirs = [], config = Some ''tls: 3\<newline>'',
             events = [ReadConfig]\<rparr>)
   \<and> exit_code (fst (addNewCertificate sample_yaml ''foo.test''
                       (sample_world [''root.key'', ''root.pem''] ''tls: 3\<newline>''))) = Some 1
   \<and> untouched (sample_world [''root.key'', ''root.pem''] ''tls: 3\<newline>'')
        (snd (addNewCertificate sample_yaml ''foo.test''
               (sample_world [''root.key'', ''root.pem''] ''tls: 3\<newline>'')))
   \<and> effects (added (sample_world [''root.key'', ''root.pem''] text_empty)
                (snd (addNewCertificate sample_yaml ''foo.test''
                       (sample_world [''root.key'', ''root.pem''] text_empty)))) \<noteq> []
   \<and> hd (added (sample_world [''root.key'', ''root.pem''] text_empty)
            (snd (addNewCertificate sample_yaml ''foo.test''
                   (sample_world [''root.key'', ''root.pem''] text_empty)))) = ReadConfig"
proof -
  let ?w = "sample_world [''root.key'', ''root.pem''] ''tls: 3\<newline>''"
  let ?u = "sample_world [''root.key'', ''root.pem''] text_empty"
  have 1: "parsed_certificates sample_yaml ?w = None"
    by code_simp
  have 2: "addNewCertificate sample_yaml ''foo.test'' ?w
       = (Inl (Uncaught TypeError),
          \<lparr>os = ''linux'', store = [''root.key'', ''root.pem''], dirs = [], config = Some ''tls: 3\<newline>'',
             events = [ReadConfig]\<rparr>)"
    by code_simp
  have 3: "effects (added ?u (snd (addNewCertificate sample_yaml ''foo.test'' ?u))) \<noteq> []"
    by code_simp
  from unusable_config_aborts_before_issuance [of sample_yaml ?w "''foo.test''"]
    unusable_config_aborts_before_issuance [of sample_yaml ?u "''foo.test''"] 1 2 3
  show ?thesis
    by blast
qed

end
